theory Spec2Isabelle
  imports Main
begin

section \<open>The graph REST resource (server/rest/graph.py)\<close>

text \<open>
  The resource is a set of route handlers over a document store and a workflow engine.
  Python dictionaries become maps, exceptions become the left summand of the result, and
  everything a handler touches outside its arguments (the filesystem, standard output,
  the response flag, the document store, the job dispatcher) is a field of the record
  \<open>world\<close> that each handler takes and returns.
\<close>

subsection \<open>JSON values and Python truthiness\<close>

text \<open>
  Request bodies arrive through \<^verbatim>\<open>jsonParam\<close>, which is declared without
  \<^verbatim>\<open>requireObject\<close>: the body a handler receives is any JSON value, an object
  (a Python dictionary, \<open>JDict\<close>) or an array, a string, a number, a boolean or null.
  Numbers are modelled as integers; floating point numbers are left out.
\<close>

datatype json =
    JNull
  | JBool bool
  | JNum int
  | JStr string
  | JList "json list"
  | JDict "string \<Rightarrow> json option"

text \<open>The truth value Python gives to a value in \<^verbatim>\<open>if v\<close> and \<^verbatim>\<open>a and b\<close>.\<close>

fun truthy :: "json \<Rightarrow> bool" where
  "truthy JNull = False"
| "truthy (JBool b) = b"
| "truthy (JNum n) = (n \<noteq> 0)"
| "truthy (JStr s) = (s \<noteq> [])"
| "truthy (JList xs) = (xs \<noteq> [])"
| "truthy (JDict d) = (d \<noteq> Map.empty)"

text \<open>A stored graph document is a string-keyed dictionary.\<close>

type_synonym doc = "string \<rightharpoonup> json"

subsection \<open>Users, exceptions, the world\<close>

text \<open>
  The current user as the handlers read it: \<^verbatim>\<open>user['_id']\<close>, \<^verbatim>\<open>user['login']\<close>
  and \<^verbatim>\<open>user['admin']\<close>. The framework's user documents always carry these keys.
\<close>

record user =
  uid :: string
  login :: string
  admin :: bool

text \<open>
  What a handler can end with instead of a value.
  \<^item> \<open>KeyError k\<close>: a subscript \<^verbatim>\<open>d[k]\<close> of the handler on a dictionary without \<open>k\<close>;
  \<^item> \<open>TypeError\<close>: a subscript \<^verbatim>\<open>v[k]\<close> with a string \<open>k\<close> on a value that is not a
    dictionary (a list, a string, a number, a boolean or \<^verbatim>\<open>None\<close>);
  \<^item> \<open>RestException message code extra\<close>: the framework's \<^verbatim>\<open>RestException(message, code, extra)\<close>,
    answered with HTTP status \<open>code\<close>;
  \<^item> \<open>AccessException message\<close>: the framework's access-denied exception, answered with 403;
  \<^item> \<open>Uncaught text\<close>: an exception raised inside a collaborator (an imported function),
    with text \<open>text\<close>, that the handler lets through.
\<close>

datatype failure =
    KeyError string
  | TypeError
  | RestException string nat "string option"
  | AccessException string
  | Uncaught string

record world =
  files :: "string \<rightharpoonup> string"
  stdout :: "string list"
  rawResponse :: bool
  store :: "json \<rightharpoonup> doc"
  persistCalls :: "doc list"
  execCalls :: "(string \<times> string) list"

text \<open>
  \<^item> \<open>files\<close>: the filesystem, path to content;
  \<^item> \<open>stdout\<close>: what \<^verbatim>\<open>print\<close> wrote;
  \<^item> \<open>rawResponse\<close>: set by \<^verbatim>\<open>self.setRawResponse()\<close>;
  \<^item> \<open>store\<close>: the graph collection, keyed by the value of \<^verbatim>\<open>_id\<close>;
  \<^item> \<open>persistCalls\<close>: the documents handed to the storage model for saving, as the
    handler hands them over, in order;
  \<^item> \<open>execCalls\<close>: the arguments of each call of \<^verbatim>\<open>execGraph\<close>, in order.
\<close>

subsection \<open>The storage model (server/models/graph.py)\<close>

text \<open>
  What the storage layer supplies by itself: the identifier of a new document, chosen
  on the collection it finds, and the time of the call.
\<close>

record storage =
  newId :: "(json \<rightharpoonup> doc) \<Rightarrow> json"
  now :: json

text \<open>
  Modelled from the spec: the storage model \<^verbatim>\<open>server/models/graph.py\<close>
  (\<^verbatim>\<open>createGraph\<close>, \<^verbatim>\<open>updateGraph\<close>) is not among the sources. The spec says of
  an update that it "persists via storage model", of the identifier that it is
  "assigned at creation by storage layer", and of \<^verbatim>\<open>created\<close> and \<^verbatim>\<open>updated\<close> that
  they are "timestamps, managed by the storage layer"; the schema in the source calls
  \<^verbatim>\<open>updated\<close> "the last time when the graph was modified". So saving a document that
  carries an \<^verbatim>\<open>_id\<close> replaces the stored document of that identifier, a document
  without one is stored under a new identifier, and every save sets \<^verbatim>\<open>updated\<close> to
  the time of the call.
\<close>

definition save :: "storage \<Rightarrow> doc \<Rightarrow> world \<Rightarrow> doc \<times> world" where
  "save S d w =
     (let i = (case d ''_id'' of Some i \<Rightarrow> i | None \<Rightarrow> newId S (store w));
          d' = d(''_id'' \<mapsto> i, ''updated'' \<mapsto> now S)
      in (d', w\<lparr>store := (store w)(i \<mapsto> d'), persistCalls := persistCalls w @ [d]\<rparr>))"

text \<open>
  Modelled from the spec: \<^verbatim>\<open>GraphModel.updateGraph\<close> is not among the sources;
  "persists via storage model".
\<close>

definition model_updateGraph :: "storage \<Rightarrow> doc \<Rightarrow> world \<Rightarrow> doc \<times> world" where
  "model_updateGraph S graphObj w = save S graphObj w"

text \<open>
  Modelled from the spec: \<^verbatim>\<open>GraphModel.createGraph\<close> is not among the sources;
  it is to "persist a new graph record tagged with the creator" and to return "the
  created record", whose \<^verbatim>\<open>creatorId\<close> is the "identifier of the creating user",
  whose \<^verbatim>\<open>_id\<close> is "assigned at creation by storage layer" and whose \<^verbatim>\<open>created\<close>
  is "the time when the graph was created".
\<close>

definition model_createGraph :: "storage \<Rightarrow> doc \<Rightarrow> user \<Rightarrow> world \<Rightarrow> doc \<times> world" where
  "model_createGraph S graph creator w =
     save S ((graph(''creatorId'' \<mapsto> JStr (uid creator), ''created'' \<mapsto> now S))(''_id'' := None)) w"

subsection \<open>createGraph and updateGraph\<close>

text \<open>
  \<^verbatim>\<open>createGraph(self, graph)\<close>: the current user is the creator;
  \<^verbatim>\<open>@access.user\<close> guarantees that there is one. The handler passes the body on
  unread; the storage model is modelled for a body that is an object.
\<close>

definition createGraph ::
  "storage \<Rightarrow> user \<Rightarrow> doc \<Rightarrow> world \<Rightarrow> (failure + doc) \<times> world" where
  "createGraph S usr graph w =
     (let (d, w') = model_createGraph S graph usr w in (Inr d, w'))"

text \<open>
  \<^verbatim>\<open>updateGraph(self, graphObj, graph, params)\<close>. \<open>graphObj\<close> is the document the
  framework loaded for the request (a copy of the stored one: assigning to it changes
  nothing in the store), \<open>graph\<close> is the request body. The first statement subscripts
  the body with \<^verbatim>\<open>'name'\<close>: on a body that is not a dictionary this raises
  TypeError. On a dictionary the two subscripts \<^verbatim>\<open>graph['name']\<close> and
  \<^verbatim>\<open>graph['content']\<close> raise KeyError on a missing key.
\<close>

definition updateGraph ::
  "storage \<Rightarrow> user \<Rightarrow> doc \<Rightarrow> json \<Rightarrow> world \<Rightarrow> (failure + doc) \<times> world" where
  "updateGraph S usr graphObj graph w =
     (case graph of
        JDict g \<Rightarrow>
     (case g ''name'' of
        None \<Rightarrow> (Inl (KeyError ''name''), w)
      | Some n \<Rightarrow>
     (case g ''content'' of
        None \<Rightarrow> (Inl (KeyError ''content''), w)
      | Some c \<Rightarrow>
     (let graphObj2 = graphObj(''name'' \<mapsto> n, ''content'' \<mapsto> c) in
      case g ''public'' of
        Some p \<Rightarrow>
          if truthy p \<and> \<not> admin usr
          then (Inl (RestException ''Not authorized to create public graphs'' 403 None), w)
          else (let (d, w') = model_updateGraph S (graphObj2(''public'' \<mapsto> p)) w
                in (Inr d, w'))
      | None \<Rightarrow>
          (let (d, w') = model_updateGraph S graphObj2 w in (Inr d, w')))))
      | _ \<Rightarrow> (Inl TypeError, w))"

subsection \<open>Collaborators of convertGraph and executeGraph\<close>

text \<open>
  The two handlers call imported functions only. Each is a parameter of the model; one
  that can raise returns the text of its exception on the left.
  \<^item> \<open>fbpToCis\<close>: the format translator of \<^verbatim>\<open>server/utils\<close>;
  \<^item> \<open>as_str\<close>: \<^verbatim>\<open>as_str(cisgraph, recurse=True, allow_pass=True)\<close>;
  \<^item> \<open>mkstemp\<close>: the path \<^verbatim>\<open>NamedTemporaryFile(suffix="yml", prefix="cis", delete=False)\<close>
    picks on the filesystem it finds;
  \<^item> \<open>safe_dump\<close>: the text \<^verbatim>\<open>yaml.safe_dump(cisgraph, tmpfile, default_flow_style=False)\<close>
    writes to the file;
  \<^item> \<open>prep_yaml\<close>: \<^verbatim>\<open>prep_yaml(tmpfile.name)\<close>, which reads the named file;
  \<^item> \<open>schema_normalize\<close>, \<open>schema_validate\<close>: the two methods of the schema object
    \<^verbatim>\<open>s = get_schema()\<close>; \<open>schema_validate\<close> returns the text of the exception it
    raises, or \<open>None\<close> when it accepts;
  \<^item> \<open>pyaml_dump\<close>: \<^verbatim>\<open>pyaml.dump\<close>;
  \<^item> \<open>execGraph\<close>: the job submission of \<^verbatim>\<open>server/utils\<close>, called with the YAML
    text and the user's login.
\<close>

record externals =
  fbpToCis :: "json \<Rightarrow> string + json"
  as_str :: "json \<Rightarrow> json"
  mkstemp :: "(string \<rightharpoonup> string) \<Rightarrow> string"
  safe_dump :: "json \<Rightarrow> string + string"
  prep_yaml :: "(string \<rightharpoonup> string) \<Rightarrow> string \<Rightarrow> string + json"
  schema_normalize :: "json \<Rightarrow> string + json"
  schema_validate :: "json \<Rightarrow> string option"
  pyaml_dump :: "json \<Rightarrow> string"
  execGraph :: "string \<Rightarrow> string \<Rightarrow> string + json"

text \<open>\<^verbatim>\<open>os.remove(path)\<close> deletes an existing file and raises on a missing one.\<close>

definition os_remove :: "(string \<rightharpoonup> string) \<Rightarrow> string \<Rightarrow> failure + (string \<rightharpoonup> string)" where
  "os_remove fs path =
     (if fs path = None then Inl (Uncaught ''FileNotFoundError'') else Inr (fs(path := None)))"

subsection \<open>convertGraph and executeGraph\<close>

text \<open>
  \<^verbatim>\<open>convertGraph(self, graph)\<close>, statement by statement. The subscript
  \<^verbatim>\<open>graph['content']\<close> raises TypeError on a body that is not a dictionary and
  KeyError on a dictionary without the key. The temporary file exists,
  empty, from the moment it is opened; \<^verbatim>\<open>os.remove\<close> comes right after
  \<^verbatim>\<open>prep_yaml\<close>, before the schema is fetched. Only \<^verbatim>\<open>s.validate\<close> is inside the
  \<^verbatim>\<open>try\<close>: its exception is printed and replaced by the RestException, whose
  third argument (\<^verbatim>\<open>extra\<close>) is the exception caught. The value returned is
  \<^verbatim>\<open>pyaml.dump(cisgraph)\<close>.
\<close>

definition convertGraph :: "externals \<Rightarrow> json \<Rightarrow> world \<Rightarrow> (failure + string) \<times> world" where
  "convertGraph E graph w =
     (case graph of
        JDict g \<Rightarrow>
     (case g ''content'' of
        None \<Rightarrow> (Inl (KeyError ''content''), w)
      | Some content \<Rightarrow>
     (case fbpToCis E content of
        Inl e \<Rightarrow> (Inl (Uncaught e), w)
      | Inr cis \<Rightarrow>
     (let cisgraph = as_str E cis;
          tmpfile = mkstemp E (files w);
          w1 = w\<lparr>files := (files w)(tmpfile \<mapsto> [])\<rparr>
      in case safe_dump E cisgraph of
        Inl e \<Rightarrow> (Inl (Uncaught e), w1)
      | Inr text \<Rightarrow>
     (let w2 = w1\<lparr>files := (files w1)(tmpfile \<mapsto> text)\<rparr>
      in case prep_yaml E (files w2) tmpfile of
        Inl e \<Rightarrow> (Inl (Uncaught e), w2)
      | Inr yml_prep \<Rightarrow>
     (case os_remove (files w2) tmpfile of
        Inl e \<Rightarrow> (Inl e, w2)
      | Inr fs \<Rightarrow>
     (let w3 = w2\<lparr>files := fs\<rparr>
      in case schema_normalize E yml_prep of
        Inl e \<Rightarrow> (Inl (Uncaught e), w3)
      | Inr yml_norm \<Rightarrow>
     (case schema_validate E yml_norm of
        Some e \<Rightarrow>
          (Inl (RestException ''Invalid graph %s'' 400 (Some e)), w3\<lparr>stdout := stdout w3 @ [e]\<rparr>)
      | None \<Rightarrow>
          (Inr (pyaml_dump E cisgraph), w3\<lparr>rawResponse := True\<rparr>))))))))
      | _ \<Rightarrow> (Inl TypeError, w))"

text \<open>
  \<^verbatim>\<open>executeGraph(self, graph)\<close>: the same statements, with the user's login read
  after the translation, and \<^verbatim>\<open>execGraph(yaml_graph, username)\<close> as the last call.
\<close>

definition executeGraph ::
  "externals \<Rightarrow> user \<Rightarrow> json \<Rightarrow> world \<Rightarrow> (failure + json) \<times> world" where
  "executeGraph E usr graph w =
     (case graph of
        JDict g \<Rightarrow>
     (case g ''content'' of
        None \<Rightarrow> (Inl (KeyError ''content''), w)
      | Some content \<Rightarrow>
     (case fbpToCis E content of
        Inl e \<Rightarrow> (Inl (Uncaught e), w)
      | Inr cis \<Rightarrow>
     (let username = login usr;
          cisgraph = as_str E cis;
          tmpfile = mkstemp E (files w);
          w1 = w\<lparr>files := (files w)(tmpfile \<mapsto> [])\<rparr>
      in case safe_dump E cisgraph of
        Inl e \<Rightarrow> (Inl (Uncaught e), w1)
      | Inr text \<Rightarrow>
     (let w2 = w1\<lparr>files := (files w1)(tmpfile \<mapsto> text)\<rparr>
      in case prep_yaml E (files w2) tmpfile of
        Inl e \<Rightarrow> (Inl (Uncaught e), w2)
      | Inr yml_prep \<Rightarrow>
     (case os_remove (files w2) tmpfile of
        Inl e \<Rightarrow> (Inl e, w2)
      | Inr fs \<Rightarrow>
     (let w3 = w2\<lparr>files := fs\<rparr>
      in case schema_normalize E yml_prep of
        Inl e \<Rightarrow> (Inl (Uncaught e), w3)
      | Inr yml_norm \<Rightarrow>
     (case schema_validate E yml_norm of
        Some e \<Rightarrow>
          (Inl (RestException ''Invalid graph %s'' 400 (Some e)), w3\<lparr>stdout := stdout w3 @ [e]\<rparr>)
      | None \<Rightarrow>
          (let yaml_graph = pyaml_dump E cisgraph;
               w4 = w3\<lparr>rawResponse := True, execCalls := execCalls w3 @ [(yaml_graph, username)]\<rparr>
           in case execGraph E yaml_graph username of
                Inl e \<Rightarrow> (Inl (Uncaught e), w4)
              | Inr r \<Rightarrow> (Inr r, w4)))))))))
      | _ \<Rightarrow> (Inl TypeError, w))"

text \<open>
  The value of the variable \<^verbatim>\<open>yml_norm\<close> in either handler, that is the document
  handed to \<^verbatim>\<open>s.validate\<close>; \<open>None\<close> when the handler ends before the assignment.
\<close>

definition yml_norm :: "externals \<Rightarrow> json \<Rightarrow> world \<Rightarrow> json option" where
  "yml_norm E graph w =
     (case graph of
        JDict g \<Rightarrow>
     (case g ''content'' of
        None \<Rightarrow> None
      | Some content \<Rightarrow>
     (case fbpToCis E content of
        Inl e \<Rightarrow> None
      | Inr cis \<Rightarrow>
     (case safe_dump E (as_str E cis) of
        Inl e \<Rightarrow> None
      | Inr text \<Rightarrow>
     (case prep_yaml E ((files w)(mkstemp E (files w) \<mapsto> text)) (mkstemp E (files w)) of
        Inl e \<Rightarrow> None
      | Inr yml_prep \<Rightarrow>
     (case schema_normalize E yml_prep of
        Inl e \<Rightarrow> None
      | Inr n \<Rightarrow> Some n)))))
      | _ \<Rightarrow> None)"

text \<open>The value of the variable \<^verbatim>\<open>cisgraph\<close> after \<^verbatim>\<open>as_str\<close>, in either handler.\<close>

definition cisgraph :: "externals \<Rightarrow> json \<Rightarrow> json option" where
  "cisgraph E graph =
     (case graph of
        JDict g \<Rightarrow>
     (case g ''content'' of
        None \<Rightarrow> None
      | Some content \<Rightarrow>
     (case fbpToCis E content of
        Inl e \<Rightarrow> None
      | Inr cis \<Rightarrow> Some (as_str E cis)))
      | _ \<Rightarrow> None)"

subsection \<open>getGraph\<close>

text \<open>
  The handler \<^verbatim>\<open>getGraph(self, graph)\<close> returns its argument. The argument comes from
  the route's declaration \<^verbatim>\<open>modelParam('id', model='graph', plugin='cis', force=True)\<close>.
  The loader behind \<^verbatim>\<open>modelParam\<close> belongs to the web framework, not to this
  repository; it is modelled as the framework documents it: the document of the given
  identifier is looked up, and a missing one raises the invalid-id RestException;
  \<^verbatim>\<open>force=True\<close> loads the document without an access check, \<^verbatim>\<open>level=L\<close> asks
  the access control for level \<open>L\<close> for the current user and raises the access
  exception when it is refused. The access decision itself is the parameter
  \<open>hasAccess\<close>; the current user is \<open>None\<close> for an anonymous request.
\<close>

datatype accessType = READ | WRITE | ADMIN

datatype loadRule = Force | Level accessType

definition modelParam ::
  "(doc \<Rightarrow> user option \<Rightarrow> accessType \<Rightarrow> bool) \<Rightarrow> loadRule \<Rightarrow> user option \<Rightarrow> string \<Rightarrow> world
     \<Rightarrow> failure + doc" where
  "modelParam hasAccess rule usr i w =
     (case store w (JStr i) of
        None \<Rightarrow> Inl (RestException (''Invalid graph id ('' @ i @ '').'') 400 None)
      | Some d \<Rightarrow>
          (case rule of
             Force \<Rightarrow> Inr d
           | Level l \<Rightarrow>
               if hasAccess d usr l then Inr d else Inl (AccessException ''Access denied'')))"

definition getGraph :: "doc \<Rightarrow> doc" where
  "getGraph graph = graph"

text \<open>
  The route \<^verbatim>\<open>GET /graph/:id\<close>: the model parameter with \<^verbatim>\<open>force=True\<close>, the
  handler, and \<^verbatim>\<open>filtermodel\<close> on what the handler returns.
\<close>

definition getGraph_route ::
  "(doc \<Rightarrow> user option \<Rightarrow> accessType \<Rightarrow> bool) \<Rightarrow> (doc \<Rightarrow> user option \<Rightarrow> doc) \<Rightarrow> user option
     \<Rightarrow> string \<Rightarrow> world \<Rightarrow> failure + doc" where
  "getGraph_route hasAccess filtermodel usr i w =
     (case modelParam hasAccess Force usr i w of
        Inl e \<Rightarrow> Inl e
      | Inr graph \<Rightarrow> Inr (filtermodel (getGraph graph) usr))"

subsection \<open>Concrete inputs\<close>

definition world0 :: world where
  "world0 = \<lparr>files = Map.empty, stdout = [], rawResponse = False,
             store = Map.empty, persistCalls = [], execCalls = []\<rparr>"

definition alice :: user where
  "alice = \<lparr>uid = ''u1'', login = ''alice'', admin = False\<rparr>"

definition root :: user where
  "root = \<lparr>uid = ''u0'', login = ''root'', admin = True\<rparr>"

definition demoS :: storage where
  "demoS = \<lparr>newId = (\<lambda>st. JStr ''g2''), now = JStr ''2017-01-10T16:15:17''\<rparr>"

definition graph1 :: doc where
  "graph1 = [''_id'' \<mapsto> JStr ''g1'', ''name'' \<mapsto> JStr ''old'', ''content'' \<mapsto> JStr ''a -> b'',
             ''creatorId'' \<mapsto> JStr ''u1'', ''public'' \<mapsto> JBool False,
             ''created'' \<mapsto> JStr ''2017-01-09T18:56:27'', ''updated'' \<mapsto> JStr ''2017-01-09T18:56:27'']"

definition world1 :: world where
  "world1 = world0\<lparr>store := [JStr ''g1'' \<mapsto> graph1]\<rparr>"

definition graph2 :: doc where
  "graph2 = [''_id'' \<mapsto> JStr ''g3'', ''name'' \<mapsto> JStr ''shared'', ''content'' \<mapsto> JStr ''b -> c'',
             ''creatorId'' \<mapsto> JStr ''u1'', ''public'' \<mapsto> JBool True,
             ''created'' \<mapsto> JStr ''2017-01-09T18:56:27'', ''updated'' \<mapsto> JStr ''2017-01-09T18:56:27'']"

definition world2 :: world where
  "world2 = world0\<lparr>store := [JStr ''g3'' \<mapsto> graph2]\<rparr>"

text \<open>
  A small set of collaborators for concrete runs. A document is a single string; the
  translator keeps it, only a string can be dumped, the text \<open>{\<close> does not parse,
  normalization appends the schema's defaults, and validation rejects the empty graph.
\<close>

definition demo_dump :: "json \<Rightarrow> string" where
  "demo_dump g = (case g of JStr s \<Rightarrow> s | _ \<Rightarrow> [])"

definition demo_load :: "string \<Rightarrow> json option" where
  "demo_load t = Some (JStr t)"

definition demo_normalize :: "json \<Rightarrow> string + json" where
  "demo_normalize g =
     (case g of JStr s \<Rightarrow> Inr (JStr (s @ '' +defaults'')) | _ \<Rightarrow> Inl ''not a graph'')"

definition demo_validate :: "json \<Rightarrow> string option" where
  "demo_validate g = (if g = JStr '' +defaults'' then Some ''empty graph'' else None)"

definition demoE :: externals where
  "demoE = \<lparr>fbpToCis = Inr,
            as_str = (\<lambda>g. g),
            mkstemp = (\<lambda>fs. ''/tmp/cis0yml''),
            safe_dump = (\<lambda>g. case g of JStr s \<Rightarrow> Inr s | _ \<Rightarrow> Inl ''cannot represent''),
            prep_yaml = (\<lambda>fs path. case fs path of
                                      None \<Rightarrow> Inl ''no such file''
                                    | Some t \<Rightarrow> if t = ''{'' then Inl ''parse error''
                                               else Inr (JStr t)),
            schema_normalize = demo_normalize,
            schema_validate = demo_validate,
            pyaml_dump = demo_dump,
            execGraph = (\<lambda>y u. Inr (JStr (u @ '': '' @ y)))\<rparr>"

text \<open>
  An access decision for concrete runs: an administrator and the creator may do
  anything, everyone may read a public graph.
\<close>

definition demoAccess :: "doc \<Rightarrow> user option \<Rightarrow> accessType \<Rightarrow> bool" where
  "demoAccess d usr l =
     (case usr of
        Some u \<Rightarrow> admin u \<or> d ''creatorId'' = Some (JStr (uid u))
                    \<or> (l = READ \<and> d ''public'' = Some (JBool True))
      | None \<Rightarrow> l = READ \<and> d ''public'' = Some (JBool True))"

section \<open>Properties\<close>

subsection \<open>updateGraph and the keys of the body\<close>

text \<open>A body that is not a JSON object never gets past the first subscript.\<close>

lemma updateGraph_not_object:
  assumes "\<And>g. graph \<noteq> JDict g"
  shows "updateGraph S usr graphObj graph w = (Inl TypeError, w)"
  using assms by (cases graph) (auto simp: updateGraph_def)

text \<open>
  C9, as written, fails: a body that is not a JSON object has neither key, and the
  first subscript raises TypeError on it, not KeyError. The empty array is such a body.
\<close>

theorem updateGraph_missing_key_counterexample:
  "updateGraph demoS alice graph1 (JList []) world1 = (Inl TypeError, world1)
   \<and> fst (updateGraph demoS alice graph1 (JList []) world1) \<noteq> Inl (KeyError ''name'')
   \<and> fst (updateGraph demoS alice graph1 (JList []) world1) \<noteq> Inl (KeyError ''content'')"
  by (simp add: updateGraph_def)

text \<open>
  C9, amended. updateGraph needs both \<^verbatim>\<open>name\<close> and \<^verbatim>\<open>content\<close> in the body: for
  every body that is a JSON object and misses either key, the handler ends with a
  KeyError (for \<^verbatim>\<open>name\<close> if that is missing, else for \<^verbatim>\<open>content\<close>), which is
  neither of the framework's 400/403 exceptions. This happens whatever the body says
  about \<^verbatim>\<open>public\<close> and whoever the user is, so before the administrator check, and
  the world is returned as it was: nothing is persisted. A body that is not a JSON
  object ends with a TypeError, in the same way.
\<close>

theorem updateGraph_missing_key:
  assumes "graph ''name'' = None \<or> graph ''content'' = None"
  shows "updateGraph S usr graphObj (JDict graph) w =
           (Inl (KeyError (if graph ''name'' = None then ''name'' else ''content'')), w)
       \<and> (\<forall>v. (\<forall>g. v \<noteq> JDict g) \<longrightarrow> updateGraph S usr graphObj v w = (Inl TypeError, w))"
proof
  from assms show "updateGraph S usr graphObj (JDict graph) w =
           (Inl (KeyError (if graph ''name'' = None then ''name'' else ''content'')), w)"
    by (auto simp: updateGraph_def split: option.splits)
next
  show "\<forall>v. (\<forall>g. v \<noteq> JDict g) \<longrightarrow> updateGraph S usr graphObj v w = (Inl TypeError, w)"
    by (intro allI impI updateGraph_not_object) simp
qed

theorem updateGraph_missing_key_witness:
  "updateGraph demoS alice graph1
     (JDict [''content'' \<mapsto> JStr ''c'', ''public'' \<mapsto> JBool True]) world1 =
     (Inl (KeyError ''name''), world1)
   \<and> updateGraph demoS alice graph1
     (JDict [''name'' \<mapsto> JStr ''n'', ''public'' \<mapsto> JBool True]) world1 =
     (Inl (KeyError ''content''), world1)"
  using updateGraph_missing_key [of "[''content'' \<mapsto> JStr ''c'', ''public'' \<mapsto> JBool True]"
          demoS alice graph1 world1]
        updateGraph_missing_key [of "[''name'' \<mapsto> JStr ''n'', ''public'' \<mapsto> JBool True]"
          demoS alice graph1 world1]
  by simp

subsection \<open>updateGraph and the public flag\<close>

lemma save_eq:
  "graphObj ''_id'' = Some i \<Longrightarrow>
   save S graphObj w =
     (graphObj(''updated'' \<mapsto> now S),
      w\<lparr>store := (store w)(i \<mapsto> graphObj(''updated'' \<mapsto> now S)),
        persistCalls := persistCalls w @ [graphObj]\<rparr>)"
  by (simp add: save_def Let_def map_upd_triv)

lemma updateGraph_persists:
  assumes "graph ''name'' = Some n" and "graph ''content'' = Some c"
    and "graphObj ''_id'' = Some i"
    and "admin usr \<or> (\<forall>p. graph ''public'' = Some p \<longrightarrow> \<not> truthy p)"
  shows "updateGraph S usr graphObj (JDict graph) w =
           (let h = (case graph ''public'' of
                       Some p \<Rightarrow> graphObj(''name'' \<mapsto> n, ''content'' \<mapsto> c, ''public'' \<mapsto> p)
                     | None \<Rightarrow> graphObj(''name'' \<mapsto> n, ''content'' \<mapsto> c));
                d = h(''updated'' \<mapsto> now S)
            in (Inr d, w\<lparr>store := (store w)(i \<mapsto> d), persistCalls := persistCalls w @ [h]\<rparr>))"
  using assms
  by (auto simp: updateGraph_def model_updateGraph_def save_eq [of _ i] Let_def
           split: option.splits)

text \<open>
  C4, as the spec has it, fails: a user without administrator privilege who sends a body
  with \<^verbatim>\<open>public: true\<close> and no \<^verbatim>\<open>name\<close> gets the KeyError of the first subscript, not
  the 403.
\<close>

theorem updateGraph_nonadmin_public_counterexample:
  "\<not> admin alice
   \<and> [''public'' \<mapsto> JBool True] ''public'' = Some (JBool True)
   \<and> fst (updateGraph demoS alice graph1 (JDict [''public'' \<mapsto> JBool True]) world1)
       = Inl (KeyError ''name'')
   \<and> fst (updateGraph demoS alice graph1 (JDict [''public'' \<mapsto> JBool True]) world1)
       \<noteq> Inl (RestException ''Not authorized to create public graphs'' 403 None)"
  by (simp add: updateGraph_def alice_def)

text \<open>
  C4, amended. For every updateGraph request by a user without administrator privilege
  whose body contains \<^verbatim>\<open>name\<close>, \<^verbatim>\<open>content\<close> and \<^verbatim>\<open>public\<close> set to true (or to any
  truthy value), the handler ends with the 403 RestException and returns the world as it
  was: the store is the same, so the stored record and its \<^verbatim>\<open>public\<close> field are
  unchanged, and the list of persistence calls has not grown.
\<close>

theorem updateGraph_nonadmin_public_403:
  assumes "\<not> admin usr"
    and "graph ''public'' = Some p" and "truthy p"
    and "graph ''name'' = Some n" and "graph ''content'' = Some c"
  shows "updateGraph S usr graphObj (JDict graph) w =
           (Inl (RestException ''Not authorized to create public graphs'' 403 None), w)"
  using assms by (simp add: updateGraph_def)

theorem updateGraph_nonadmin_public_403_witness:
  "updateGraph demoS alice graph1
     (JDict [''name'' \<mapsto> JStr ''n'', ''content'' \<mapsto> JStr ''c'', ''public'' \<mapsto> JBool True]) world1 =
   (Inl (RestException ''Not authorized to create public graphs'' 403 None), world1)
   \<and> store world1 (JStr ''g1'') = Some graph1
   \<and> graph1 ''public'' = Some (JBool False)"
  using updateGraph_nonadmin_public_403 [of alice
          "[''name'' \<mapsto> JStr ''n'', ''content'' \<mapsto> JStr ''c'', ''public'' \<mapsto> JBool True]"
          "JBool True" "JStr ''n''" "JStr ''c''" demoS graph1 world1]
  by (simp add: alice_def world1_def graph1_def)

text \<open>
  C6, as the spec has it, fails: an administrator who sends \<^verbatim>\<open>public: true\<close> in a body
  without \<^verbatim>\<open>name\<close> gets a KeyError, and the stored record \<open>graph1\<close> still has
  \<^verbatim>\<open>public\<close> false.
\<close>

theorem updateGraph_admin_public_counterexample:
  "admin root
   \<and> fst (updateGraph demoS root graph1 (JDict [''public'' \<mapsto> JBool True]) world1)
       = Inl (KeyError ''name'')
   \<and> store (snd (updateGraph demoS root graph1 (JDict [''public'' \<mapsto> JBool True]) world1))
        (JStr ''g1'') = Some graph1
   \<and> graph1 ''public'' = Some (JBool False)"
  by (simp add: updateGraph_def root_def world1_def graph1_def)

text \<open>
  C6, amended. For every updateGraph request by a user with administrator privilege
  whose body contains \<^verbatim>\<open>name\<close>, \<^verbatim>\<open>content\<close> and \<^verbatim>\<open>public\<close> set to true, the
  update succeeds, and the record persisted under the graph's identifier, which is also
  the record returned, has \<^verbatim>\<open>public\<close> equal to true.
\<close>

theorem updateGraph_admin_public:
  assumes "admin usr"
    and "graph ''public'' = Some (JBool True)"
    and "graph ''name'' = Some n" and "graph ''content'' = Some c"
    and "graphObj ''_id'' = Some i"
  shows "\<exists>d. fst (updateGraph S usr graphObj (JDict graph) w) = Inr d
             \<and> store (snd (updateGraph S usr graphObj (JDict graph) w)) i = Some d
             \<and> d ''public'' = Some (JBool True)"
  using assms updateGraph_persists [of graph n c graphObj i usr S w]
  by (simp add: Let_def)

theorem updateGraph_admin_public_witness:
  "\<exists>d. fst (updateGraph demoS root graph1
               (JDict [''name'' \<mapsto> JStr ''n'', ''content'' \<mapsto> JStr ''c'', ''public'' \<mapsto> JBool True])
               world1)
          = Inr d
        \<and> store (snd (updateGraph demoS root graph1
               (JDict [''name'' \<mapsto> JStr ''n'', ''content'' \<mapsto> JStr ''c'', ''public'' \<mapsto> JBool True])
               world1))
            (JStr ''g1'') = Some d
        \<and> d ''public'' = Some (JBool True)"
  using updateGraph_admin_public [of root
          "[''name'' \<mapsto> JStr ''n'', ''content'' \<mapsto> JStr ''c'', ''public'' \<mapsto> JBool True]"
          "JStr ''n''" "JStr ''c''" graph1 "JStr ''g1''" demoS world1]
  by (simp add: root_def graph1_def)

text \<open>
  C10, as written, fails: a body with \<^verbatim>\<open>public: false\<close> and no \<^verbatim>\<open>content\<close> ends in
  a KeyError, and the stored record \<open>graph2\<close> keeps \<^verbatim>\<open>public\<close> true: the value has
  not been applied.
\<close>

theorem updateGraph_unset_public_counterexample:
  "\<not> truthy (JBool False)
   \<and> fst (updateGraph demoS alice graph2
            (JDict [''name'' \<mapsto> JStr ''n'', ''public'' \<mapsto> JBool False]) world2)
       = Inl (KeyError ''content'')
   \<and> store (snd (updateGraph demoS alice graph2
                   (JDict [''name'' \<mapsto> JStr ''n'', ''public'' \<mapsto> JBool False]) world2)) (JStr ''g3'')
       = Some graph2
   \<and> graph2 ''public'' = Some (JBool True)"
  by (simp add: updateGraph_def world2_def graph2_def)

text \<open>
  C10, amended. The administrator check applies only to a truthy \<^verbatim>\<open>public\<close>: for every
  updateGraph request whose body contains \<^verbatim>\<open>name\<close>, \<^verbatim>\<open>content\<close> and \<^verbatim>\<open>public\<close> set
  to false (or to any falsy value \<open>p\<close>), the update succeeds whether or not the acting
  user is an administrator, and the record persisted under the graph's identifier has
  \<^verbatim>\<open>public\<close> equal to \<open>p\<close>. Any user with write access can unset the flag.
\<close>

theorem updateGraph_unset_public:
  assumes "graph ''public'' = Some p" and "\<not> truthy p"
    and "graph ''name'' = Some n" and "graph ''content'' = Some c"
    and "graphObj ''_id'' = Some i"
  shows "\<exists>d. fst (updateGraph S usr graphObj (JDict graph) w) = Inr d
             \<and> store (snd (updateGraph S usr graphObj (JDict graph) w)) i = Some d
             \<and> d ''public'' = Some p
             \<and> updateGraph S usr graphObj (JDict graph) w
                 = updateGraph S (usr\<lparr>admin := True\<rparr>) graphObj (JDict graph) w"
  using assms updateGraph_persists [of graph n c graphObj i usr S w]
    updateGraph_persists [of graph n c graphObj i "usr\<lparr>admin := True\<rparr>" S w]
  by (simp add: Let_def)

theorem updateGraph_unset_public_witness:
  "\<not> admin alice \<and>
   (\<exists>d. fst (updateGraph demoS alice graph2
               (JDict [''name'' \<mapsto> JStr ''n'', ''content'' \<mapsto> JStr ''c'', ''public'' \<mapsto> JBool False])
               world2)
          = Inr d
        \<and> store (snd (updateGraph demoS alice graph2
               (JDict [''name'' \<mapsto> JStr ''n'', ''content'' \<mapsto> JStr ''c'', ''public'' \<mapsto> JBool False])
               world2))
            (JStr ''g3'') = Some d
        \<and> d ''public'' = Some (JBool False))"
proof -
  let ?body = "[''name'' \<mapsto> JStr ''n'', ''content'' \<mapsto> JStr ''c'', ''public'' \<mapsto> JBool False]"
  have user: "\<not> admin alice"
    by (simp add: alice_def)
  have body: "?body ''public'' = Some (JBool False)" "?body ''name'' = Some (JStr ''n'')"
    "?body ''content'' = Some (JStr ''c'')"
    by simp_all
  have falsy: "\<not> truthy (JBool False)"
    by simp
  have ident: "graph2 ''_id'' = Some (JStr ''g3'')"
    by (simp add: graph2_def)
  from updateGraph_unset_public [of ?body "JBool False" "JStr ''n''" "JStr ''c''" graph2
         "JStr ''g3''" demoS alice world2] body falsy ident user
  show ?thesis by blast
qed

subsection \<open>The creator of a graph and the fields an update writes\<close>

lemma updateGraph_store:
  assumes "store w i = Some graphObj" and "graphObj ''_id'' = Some i"
  shows "\<exists>d. store (snd (updateGraph S usr graphObj body w)) i = Some d
           \<and> (\<forall>k. k \<notin> {''name'', ''content'', ''public'', ''updated''} \<longrightarrow> d k = graphObj k)
           \<and> ((\<forall>g. body = JDict g \<longrightarrow> g ''public'' = None) \<longrightarrow> d ''public'' = graphObj ''public'')"
proof (cases "\<exists>g. body = JDict g")
  case False
  then have "updateGraph S usr graphObj body w = (Inl TypeError, w)"
    by (intro updateGraph_not_object) simp
  with assms show ?thesis by simp
next
  case True
  then obtain g where g: "body = JDict g" ..
  show ?thesis
  proof (cases "g ''name''")
    case None
    with g assms show ?thesis by (simp add: updateGraph_def)
  next
    case (Some n)
    note n = this
    show ?thesis
    proof (cases "g ''content''")
      case None
      with g n assms show ?thesis by (simp add: updateGraph_def)
    next
      case (Some c)
      note c = this
      show ?thesis
      proof (cases "g ''public''")
        case None
        with g n c assms show ?thesis
          by (simp add: updateGraph_def model_updateGraph_def save_eq [of _ i] Let_def)
      next
        case (Some p)
        with g n c assms show ?thesis
          by (simp add: updateGraph_def model_updateGraph_def save_eq [of _ i] Let_def)
      qed
    qed
  qed
qed

lemma updateGraph_store_others:
  assumes "graphObj ''_id'' = Some i" and "j \<noteq> i"
  shows "store (snd (updateGraph S usr graphObj body w)) j = store w j"
proof (cases "\<exists>g. body = JDict g")
  case False
  then have "updateGraph S usr graphObj body w = (Inl TypeError, w)"
    by (intro updateGraph_not_object) simp
  then show ?thesis by simp
next
  case True
  then obtain g where g: "body = JDict g" ..
  with assms show ?thesis
    by (simp add: updateGraph_def model_updateGraph_def save_eq [of _ i] Let_def
             split: option.splits)
qed

lemma updateGraph_handed:
  assumes "persistCalls (snd (updateGraph S usr graphObj body w)) = persistCalls w @ [h]"
    and "k \<notin> {''name'', ''content'', ''public''}"
  shows "h k = graphObj k"
proof (cases "\<exists>g. body = JDict g")
  case False
  then have "updateGraph S usr graphObj body w = (Inl TypeError, w)"
    by (intro updateGraph_not_object) simp
  with assms(1) show ?thesis by simp
next
  case True
  then obtain g where g: "body = JDict g" ..
  show ?thesis
  proof (cases "g ''name''")
    case None
    with g assms show ?thesis by (simp add: updateGraph_def)
  next
    case (Some n)
    note n = this
    show ?thesis
    proof (cases "g ''content''")
      case None
      with g n assms show ?thesis by (simp add: updateGraph_def)
    next
      case (Some c)
      note c = this
      show ?thesis
      proof (cases "g ''public''")
        case None
        with g n c assms show ?thesis
          by (auto simp: updateGraph_def model_updateGraph_def save_def Let_def)
      next
        case (Some p)
        with g n c assms show ?thesis
          by (auto simp: updateGraph_def model_updateGraph_def save_def Let_def
                   split: if_splits)
      qed
    qed
  qed
qed

lemma updateGraph_success:
  assumes "updateGraph S usr graphObj body w = (Inr d, w')" and "graphObj ''_id'' = Some i"
  shows "d ''updated'' = Some (now S) \<and> store w' i = Some d"
proof (cases "\<exists>g. body = JDict g")
  case False
  then have "updateGraph S usr graphObj body w = (Inl TypeError, w)"
    by (intro updateGraph_not_object) simp
  with assms(1) show ?thesis by simp
next
  case True
  then obtain g where g: "body = JDict g" ..
  with assms show ?thesis
    by (auto simp: updateGraph_def model_updateGraph_def save_eq [of _ i] Let_def
             split: option.splits if_splits)
qed

text \<open>
  C7, as the spec has it, fails on its last part. An update does not leave all other
  stored fields as they were: the storage layer sets \<^verbatim>\<open>updated\<close>, which is none of
  \<^verbatim>\<open>name\<close>, \<^verbatim>\<open>content\<close> and \<^verbatim>\<open>public\<close>, to the time of the save.
\<close>

theorem update_keeps_fields_counterexample:
  "''updated'' \<notin> {''name'', ''content'', ''public''}
   \<and> store world1 (JStr ''g1'') = Some graph1
   \<and> graph1 ''updated'' = Some (JStr ''2017-01-09T18:56:27'')
   \<and> map_option (\<lambda>d. d ''updated'')
        (store (snd (updateGraph demoS alice graph1
                       (JDict [''name'' \<mapsto> JStr ''n'', ''content'' \<mapsto> JStr ''c'']) world1))
           (JStr ''g1''))
       = Some (Some (JStr ''2017-01-10T16:15:17''))"
  by (simp add: updateGraph_def model_updateGraph_def save_def Let_def world1_def graph1_def
        demoS_def)

text \<open>
  C7, amended. A graph created by user \<open>U\<close> is stored and returned with \<^verbatim>\<open>creatorId\<close>
  equal to \<open>U\<close>'s identifier. updateGraph never changes \<^verbatim>\<open>creatorId\<close>: the record
  the handler hands to the storage model agrees with the record loaded on every key
  other than \<^verbatim>\<open>name\<close>, \<^verbatim>\<open>content\<close> and \<^verbatim>\<open>public\<close>, and the record found under the
  graph's identifier after the request, whatever the body and whoever the user, agrees
  with the record loaded on every key other than these three and the storage-managed
  timestamp \<^verbatim>\<open>updated\<close>, which a successful update sets to the time of the save;
  \<^verbatim>\<open>public\<close> is written only when the body has it; and the records of all other
  graphs stay as they were.
\<close>

theorem creatorId_set_on_create_and_kept_on_update:
  assumes "store w i = Some graphObj" and "graphObj ''_id'' = Some i"
  shows "(\<exists>d w'. createGraph S U graph w = (Inr d, w')
            \<and> d ''creatorId'' = Some (JStr (uid U))
            \<and> store w' (newId S (store w)) = Some d)
       \<and> (\<exists>d. store (snd (updateGraph S usr graphObj body w)) i = Some d
            \<and> d ''creatorId'' = graphObj ''creatorId''
            \<and> (\<forall>k. k \<notin> {''name'', ''content'', ''public'', ''updated''} \<longrightarrow> d k = graphObj k)
            \<and> ((\<forall>g. body = JDict g \<longrightarrow> g ''public'' = None) \<longrightarrow>
                  d ''public'' = graphObj ''public''))
       \<and> (\<forall>h. persistCalls (snd (updateGraph S usr graphObj body w)) = persistCalls w @ [h] \<longrightarrow>
              (\<forall>k. k \<notin> {''name'', ''content'', ''public''} \<longrightarrow> h k = graphObj k))
       \<and> (\<forall>d w'. updateGraph S usr graphObj body w = (Inr d, w') \<longrightarrow>
              d ''updated'' = Some (now S) \<and> store w' i = Some d)
       \<and> (\<forall>j. j \<noteq> i \<longrightarrow> store (snd (updateGraph S usr graphObj body w)) j = store w j)"
proof (intro conjI)
  show "\<exists>d w'. createGraph S U graph w = (Inr d, w')
            \<and> d ''creatorId'' = Some (JStr (uid U))
            \<and> store w' (newId S (store w)) = Some d"
    by (simp add: createGraph_def model_createGraph_def save_def Let_def)
next
  from updateGraph_store [where graphObj = graphObj and i = i and w = w and S = S
      and usr = usr and body = body, OF assms]
  obtain d where stored: "store (snd (updateGraph S usr graphObj body w)) i = Some d"
    and frame: "\<forall>k. k \<notin> {''name'', ''content'', ''public'', ''updated''} \<longrightarrow> d k = graphObj k"
    and flag: "(\<forall>g. body = JDict g \<longrightarrow> g ''public'' = None) \<longrightarrow> d ''public'' = graphObj ''public''"
    by (elim exE conjE)
  from frame [rule_format, of "''creatorId''"]
  have creator: "d ''creatorId'' = graphObj ''creatorId''"
    by simp
  show "\<exists>d. store (snd (updateGraph S usr graphObj body w)) i = Some d
            \<and> d ''creatorId'' = graphObj ''creatorId''
            \<and> (\<forall>k. k \<notin> {''name'', ''content'', ''public'', ''updated''} \<longrightarrow> d k = graphObj k)
            \<and> ((\<forall>g. body = JDict g \<longrightarrow> g ''public'' = None) \<longrightarrow>
                  d ''public'' = graphObj ''public'')"
  proof (intro exI [of _ d] conjI)
    show "store (snd (updateGraph S usr graphObj body w)) i = Some d" by (rule stored)
    show "d ''creatorId'' = graphObj ''creatorId''" by (rule creator)
    show "\<forall>k. k \<notin> {''name'', ''content'', ''public'', ''updated''} \<longrightarrow> d k = graphObj k"
      by (rule frame)
    show "(\<forall>g. body = JDict g \<longrightarrow> g ''public'' = None) \<longrightarrow> d ''public'' = graphObj ''public''"
      by (rule flag)
  qed
next
  show "\<forall>h. persistCalls (snd (updateGraph S usr graphObj body w)) = persistCalls w @ [h] \<longrightarrow>
              (\<forall>k. k \<notin> {''name'', ''content'', ''public''} \<longrightarrow> h k = graphObj k)"
    by (intro allI impI) (rule updateGraph_handed)
next
  show "\<forall>d w'. updateGraph S usr graphObj body w = (Inr d, w') \<longrightarrow>
              d ''updated'' = Some (now S) \<and> store w' i = Some d"
    by (intro allI impI)
      (rule updateGraph_success [where graphObj = graphObj and i = i, OF _ assms(2)])
next
  show "\<forall>j. j \<noteq> i \<longrightarrow> store (snd (updateGraph S usr graphObj body w)) j = store w j"
    by (intro allI impI)
      (rule updateGraph_store_others [where graphObj = graphObj and i = i, OF assms(2)])
qed

theorem creatorId_set_on_create_and_kept_on_update_witness:
  "(\<exists>d w'. createGraph demoS alice [''name'' \<mapsto> JStr ''n'', ''content'' \<mapsto> JStr ''c''] world1
              = (Inr d, w')
            \<and> d ''creatorId'' = Some (JStr ''u1'')
            \<and> store w' (JStr ''g2'') = Some d)
   \<and> (\<exists>d. store (snd (updateGraph demoS root graph1
                    (JDict [''name'' \<mapsto> JStr ''n'', ''content'' \<mapsto> JStr ''c'',
                            ''creatorId'' \<mapsto> JStr ''u0''])
                    world1)) (JStr ''g1'') = Some d
            \<and> d ''creatorId'' = Some (JStr ''u1''))"
proof -
  have stored: "store world1 (JStr ''g1'') = Some graph1"
    by (simp add: world1_def)
  have ident: "graph1 ''_id'' = Some (JStr ''g1'')"
    by (simp add: graph1_def)
  have creator: "graph1 ''creatorId'' = Some (JStr ''u1'')"
    by (simp add: graph1_def)
  have fresh: "newId demoS (store world1) = JStr ''g2''"
    by (simp add: demoS_def)
  have alice: "uid alice = ''u1''"
    by (simp add: alice_def)
  from creatorId_set_on_create_and_kept_on_update [where w = world1 and i = "JStr ''g1''"
         and graphObj = graph1 and S = demoS and U = alice
         and graph = "[''name'' \<mapsto> JStr ''n'', ''content'' \<mapsto> JStr ''c'']" and usr = root
         and body = "JDict [''name'' \<mapsto> JStr ''n'', ''content'' \<mapsto> JStr ''c'',
                            ''creatorId'' \<mapsto> JStr ''u0'']",
         OF stored ident]
  show ?thesis
    unfolding creator fresh alice by (elim conjE exE) (intro conjI exI, assumption+)
qed

subsection \<open>The pipeline of convertGraph and executeGraph\<close>

lemma os_remove_written [simp]:
  "os_remove (fs(path \<mapsto> text)) path = Inr (fs(path := None))"
  by (simp add: os_remove_def)

lemma yml_norm_SomeD:
  assumes "yml_norm E graph w = Some n"
  obtains g c cis dumped p where "graph = JDict g" and "g ''content'' = Some c"
    and "fbpToCis E c = Inr cis"
    and "safe_dump E (as_str E cis) = Inr dumped"
    and "prep_yaml E ((files w)(mkstemp E (files w) \<mapsto> dumped)) (mkstemp E (files w)) = Inr p"
    and "schema_normalize E p = Inr n"
  using assms by (cases graph) (auto simp: yml_norm_def split: option.splits sum.splits)

lemma convertGraph_validated:
  assumes "yml_norm E graph w = Some n"
  shows "\<exists>g. cisgraph E graph = Some g
           \<and> convertGraph E graph w =
               (case schema_validate E n of
                  Some e \<Rightarrow>
                    (Inl (RestException ''Invalid graph %s'' 400 (Some e)),
                     w\<lparr>files := (files w)(mkstemp E (files w) := None), stdout := stdout w @ [e]\<rparr>)
                | None \<Rightarrow>
                    (Inr (pyaml_dump E g),
                     w\<lparr>files := (files w)(mkstemp E (files w) := None), rawResponse := True\<rparr>))"
proof -
  from assms obtain g c cis dumped p where "graph = JDict g" and "g ''content'' = Some c"
    and "fbpToCis E c = Inr cis"
    and "safe_dump E (as_str E cis) = Inr dumped"
    and "prep_yaml E ((files w)(mkstemp E (files w) \<mapsto> dumped)) (mkstemp E (files w)) = Inr p"
    and "schema_normalize E p = Inr n"
    by (rule yml_norm_SomeD)
  then show ?thesis
    by (simp add: cisgraph_def convertGraph_def Let_def split: option.splits)
qed

lemma executeGraph_validated:
  assumes "yml_norm E graph w = Some n"
  shows "\<exists>g. cisgraph E graph = Some g
           \<and> executeGraph E usr graph w =
               (case schema_validate E n of
                  Some e \<Rightarrow>
                    (Inl (RestException ''Invalid graph %s'' 400 (Some e)),
                     w\<lparr>files := (files w)(mkstemp E (files w) := None), stdout := stdout w @ [e]\<rparr>)
                | None \<Rightarrow>
                    (case execGraph E (pyaml_dump E g) (login usr) of
                       Inl e \<Rightarrow> Inl (Uncaught e)
                     | Inr r \<Rightarrow> Inr r,
                     w\<lparr>files := (files w)(mkstemp E (files w) := None), rawResponse := True,
                       execCalls := execCalls w @ [(pyaml_dump E g, login usr)]\<rparr>))"
proof -
  from assms obtain g c cis dumped p where "graph = JDict g" and "g ''content'' = Some c"
    and "fbpToCis E c = Inr cis"
    and "safe_dump E (as_str E cis) = Inr dumped"
    and "prep_yaml E ((files w)(mkstemp E (files w) \<mapsto> dumped)) (mkstemp E (files w)) = Inr p"
    and "schema_normalize E p = Inr n"
    by (rule yml_norm_SomeD)
  then show ?thesis
    by (simp add: cisgraph_def executeGraph_def Let_def split: option.splits sum.splits)
qed


lemma executeGraph_convertGraph:
  "executeGraph E usr graph w =
     (case convertGraph E graph w of
        (Inl e, w') \<Rightarrow> (Inl e, w')
      | (Inr yaml_graph, w') \<Rightarrow>
          (let w'' = w'\<lparr>execCalls := execCalls w' @ [(yaml_graph, login usr)]\<rparr>
           in case execGraph E yaml_graph (login usr) of
                Inl e \<Rightarrow> (Inl (Uncaught e), w'')
              | Inr r \<Rightarrow> (Inr r, w'')))"
  by (cases graph)
    (simp_all add: convertGraph_def executeGraph_def Let_def split: option.splits sum.splits)

lemma executeGraph_failed:
  assumes "fst (convertGraph E graph w) = Inl e"
  shows "executeGraph E usr graph w = (Inl e, snd (convertGraph E graph w))"
proof -
  from assms obtain w' where "convertGraph E graph w = (Inl e, w')"
    by (cases "convertGraph E graph w") simp
  then show ?thesis
    by (simp add: executeGraph_convertGraph)
qed


lemma convertGraph_files:
  "files (snd (convertGraph E graph w)) =
     (case cisgraph E graph of
        None \<Rightarrow> files w
      | Some g \<Rightarrow>
          (case safe_dump E g of
             Inl e \<Rightarrow> (files w)(mkstemp E (files w) \<mapsto> [])
           | Inr dumped \<Rightarrow>
               (case prep_yaml E ((files w)(mkstemp E (files w) \<mapsto> dumped)) (mkstemp E (files w)) of
                  Inl e \<Rightarrow> (files w)(mkstemp E (files w) \<mapsto> dumped)
                | Inr p \<Rightarrow> (files w)(mkstemp E (files w) := None))))"
  by (cases graph)
    (auto simp: cisgraph_def convertGraph_def Let_def split: option.splits sum.splits)

lemma executeGraph_files:
  "files (snd (executeGraph E usr graph w)) = files (snd (convertGraph E graph w))"
proof (cases "convertGraph E graph w")
  case (Pair r w')
  then show ?thesis
    by (cases r; cases "execGraph E (projr r) (login usr)")
      (simp_all add: executeGraph_convertGraph Let_def)
qed

lemmas demo_defs = demoE_def demo_dump_def demo_normalize_def demo_validate_def world0_def
  convertGraph_def executeGraph_def yml_norm_def cisgraph_def os_remove_def Let_def

lemma handlers_files_validated:
  assumes "yml_norm E graph w = Some n"
  shows "files (snd (convertGraph E graph w)) = (files w)(mkstemp E (files w) := None)"
    and "files (snd (executeGraph E usr graph w)) = (files w)(mkstemp E (files w) := None)"
  using convertGraph_validated [OF assms] executeGraph_validated [OF assms, of usr]
  by (auto split: option.splits)

subsection \<open>What convertGraph returns\<close>

text \<open>
  C1, as the spec has it, fails. With collaborators whose normalization changes the
  document, the content \<open>a\<close> converts, is normalized to \<open>a +defaults\<close> and passes
  validation, and convertGraph returns the text \<open>a\<close>: it re-parses to the document
  before normalization, not to the normalized one, and it is not the serialization of
  the normalized one.
\<close>

theorem convertGraph_normalized_counterexample:
  "yml_norm demoE (JDict [''content'' \<mapsto> JStr ''a'']) world0 = Some (JStr ''a +defaults'')
   \<and> schema_validate demoE (JStr ''a +defaults'') = None
   \<and> fst (convertGraph demoE (JDict [''content'' \<mapsto> JStr ''a'']) world0) = Inr ''a''
   \<and> demo_load ''a'' = Some (JStr ''a'')
   \<and> demo_load ''a'' \<noteq> Some (JStr ''a +defaults'')
   \<and> ''a'' \<noteq> pyaml_dump demoE (JStr ''a +defaults'')"
  by (simp add: demo_defs demo_load_def)

text \<open>
  C1, amended. For every input body whose content converts and passes schema
  validation, convertGraph returns \<^verbatim>\<open>pyaml.dump(cisgraph)\<close>: the YAML text of the
  conversion output (the translator's result after \<^verbatim>\<open>as_str\<close>), that is of the
  document before normalization. The normalized document is used for validation only.
\<close>

theorem convertGraph_returns_cisgraph:
  assumes "yml_norm E graph w = Some n" and "schema_validate E n = None"
  shows "\<exists>g. cisgraph E graph = Some g
           \<and> fst (convertGraph E graph w) = Inr (pyaml_dump E g)"
  using convertGraph_validated [OF assms(1)] assms(2) by auto

theorem convertGraph_returns_cisgraph_witness:
  "yml_norm demoE (JDict [''content'' \<mapsto> JStr ''a'']) world0 = Some (JStr ''a +defaults'')
   \<and> schema_validate demoE (JStr ''a +defaults'') = None
   \<and> cisgraph demoE (JDict [''content'' \<mapsto> JStr ''a'']) = Some (JStr ''a'')
   \<and> fst (convertGraph demoE (JDict [''content'' \<mapsto> JStr ''a'']) world0)
       = Inr (pyaml_dump demoE (JStr ''a''))"
proof -
  have validated:
    "yml_norm demoE (JDict [''content'' \<mapsto> JStr ''a'']) world0 = Some (JStr ''a +defaults'')"
    "schema_validate demoE (JStr ''a +defaults'') = None"
    by (simp_all add: demo_defs)
  have converted: "cisgraph demoE (JDict [''content'' \<mapsto> JStr ''a'']) = Some (JStr ''a'')"
    by (simp add: cisgraph_def demoE_def)
  from convertGraph_returns_cisgraph [OF validated] converted
  have "fst (convertGraph demoE (JDict [''content'' \<mapsto> JStr ''a'']) world0)
          = Inr (pyaml_dump demoE (JStr ''a''))"
    by simp
  with validated converted show ?thesis by simp
qed

subsection \<open>The temporary file\<close>

text \<open>
  C3, as the spec has it, fails. When the validator raises, in convertGraph and in
  executeGraph alike, the temporary file is no longer on the filesystem: it was removed
  before the schema was fetched.
\<close>

theorem tmpfile_orphaned_counterexample:
  "yml_norm demoE (JDict [''content'' \<mapsto> JStr []]) world0 = Some (JStr '' +defaults'')
   \<and> schema_validate demoE (JStr '' +defaults'') = Some ''empty graph''
   \<and> fst (convertGraph demoE (JDict [''content'' \<mapsto> JStr []]) world0)
       = Inl (RestException ''Invalid graph %s'' 400 (Some ''empty graph''))
   \<and> files (snd (convertGraph demoE (JDict [''content'' \<mapsto> JStr []]) world0))
        (mkstemp demoE (files world0)) = None
   \<and> fst (executeGraph demoE alice (JDict [''content'' \<mapsto> JStr []]) world0)
       = Inl (RestException ''Invalid graph %s'' 400 (Some ''empty graph''))
   \<and> files (snd (executeGraph demoE alice (JDict [''content'' \<mapsto> JStr []]) world0))
        (mkstemp demoE (files world0)) = None"
  by (simp add: demo_defs)

text \<open>
  C3, amended. In convertGraph and in executeGraph the removal step follows
  \<^verbatim>\<open>prep_yaml\<close> and precedes normalization and validation. With \<open>tmp\<close> the path of
  the temporary file, the filesystem after a call of either handler is a function of
  the steps up to \<^verbatim>\<open>prep_yaml\<close> alone: unchanged when the handler ends before the
  file is opened; with \<open>tmp\<close> empty when \<^verbatim>\<open>yaml.safe_dump\<close> raises; with \<open>tmp\<close>
  holding the dumped text when \<^verbatim>\<open>prep_yaml\<close> raises; and without \<open>tmp\<close> in every
  other case. So for every call in which the schema validator raises the file has
  already been removed, as it has on the success path and when normalization raises.
  When \<open>tmp\<close> was not there before the call, it is left on the filesystem if and only
  if \<^verbatim>\<open>yaml.safe_dump\<close> or \<^verbatim>\<open>prep_yaml\<close> raised.
\<close>

theorem tmpfile_removed_before_validation:
  assumes "tmp = mkstemp E (files w)"
  shows "files (snd (convertGraph E graph w)) =
           (case cisgraph E graph of
              None \<Rightarrow> files w
            | Some g \<Rightarrow>
                (case safe_dump E g of
                   Inl e \<Rightarrow> (files w)(tmp \<mapsto> [])
                 | Inr dumped \<Rightarrow>
                     (case prep_yaml E ((files w)(tmp \<mapsto> dumped)) tmp of
                        Inl e \<Rightarrow> (files w)(tmp \<mapsto> dumped)
                      | Inr p \<Rightarrow> (files w)(tmp := None))))
       \<and> files (snd (executeGraph E usr graph w)) = files (snd (convertGraph E graph w))
       \<and> (\<forall>n e. yml_norm E graph w = Some n \<and> schema_validate E n = Some e \<longrightarrow>
            files (snd (convertGraph E graph w)) = (files w)(tmp := None)
          \<and> files (snd (executeGraph E usr graph w)) = (files w)(tmp := None))
       \<and> (\<forall>n. yml_norm E graph w = Some n \<and> schema_validate E n = None \<longrightarrow>
            files (snd (convertGraph E graph w)) = (files w)(tmp := None)
          \<and> files (snd (executeGraph E usr graph w)) = (files w)(tmp := None))
       \<and> (\<forall>g dumped p e. cisgraph E graph = Some g \<and> safe_dump E g = Inr dumped
              \<and> prep_yaml E ((files w)(tmp \<mapsto> dumped)) tmp = Inr p
              \<and> schema_normalize E p = Inl e \<longrightarrow>
            files (snd (convertGraph E graph w)) = (files w)(tmp := None)
          \<and> files (snd (executeGraph E usr graph w)) = (files w)(tmp := None))
       \<and> (files w tmp = None \<longrightarrow>
            (files (snd (convertGraph E graph w)) tmp \<noteq> None \<longleftrightarrow>
               (\<exists>g. cisgraph E graph = Some g
                  \<and> ((\<exists>e. safe_dump E g = Inl e)
                     \<or> (\<exists>dumped e. safe_dump E g = Inr dumped
                           \<and> prep_yaml E ((files w)(tmp \<mapsto> dumped)) tmp = Inl e))))
          \<and> (files (snd (executeGraph E usr graph w)) tmp \<noteq> None \<longleftrightarrow>
               (\<exists>g. cisgraph E graph = Some g
                  \<and> ((\<exists>e. safe_dump E g = Inl e)
                     \<or> (\<exists>dumped e. safe_dump E g = Inr dumped
                           \<and> prep_yaml E ((files w)(tmp \<mapsto> dumped)) tmp = Inl e)))))"
proof -
  have after: "files (snd (convertGraph E graph w)) =
           (case cisgraph E graph of
              None \<Rightarrow> files w
            | Some g \<Rightarrow>
                (case safe_dump E g of
                   Inl e \<Rightarrow> (files w)(tmp \<mapsto> [])
                 | Inr dumped \<Rightarrow>
                     (case prep_yaml E ((files w)(tmp \<mapsto> dumped)) tmp of
                        Inl e \<Rightarrow> (files w)(tmp \<mapsto> dumped)
                      | Inr p \<Rightarrow> (files w)(tmp := None))))"
    unfolding assms by (rule convertGraph_files)
  have same: "files (snd (executeGraph E usr graph w)) = files (snd (convertGraph E graph w))"
    by (rule executeGraph_files)
  have rejected: "\<forall>n e. yml_norm E graph w = Some n \<and> schema_validate E n = Some e \<longrightarrow>
            files (snd (convertGraph E graph w)) = (files w)(tmp := None)
          \<and> files (snd (executeGraph E usr graph w)) = (files w)(tmp := None)"
    using handlers_files_validated(1) [of E graph w]
      handlers_files_validated(2) [of E graph w _ usr] assms
    by simp
  have accepted: "\<forall>n. yml_norm E graph w = Some n \<and> schema_validate E n = None \<longrightarrow>
            files (snd (convertGraph E graph w)) = (files w)(tmp := None)
          \<and> files (snd (executeGraph E usr graph w)) = (files w)(tmp := None)"
    using handlers_files_validated(1) [of E graph w]
      handlers_files_validated(2) [of E graph w _ usr] assms
    by simp
  have normalizing: "\<forall>g dumped p e. cisgraph E graph = Some g \<and> safe_dump E g = Inr dumped
              \<and> prep_yaml E ((files w)(tmp \<mapsto> dumped)) tmp = Inr p
              \<and> schema_normalize E p = Inl e \<longrightarrow>
            files (snd (convertGraph E graph w)) = (files w)(tmp := None)
          \<and> files (snd (executeGraph E usr graph w)) = (files w)(tmp := None)"
    by (simp add: after same)
  have orphaned: "files (snd (convertGraph E graph w)) tmp \<noteq> None \<longleftrightarrow>
               (\<exists>g. cisgraph E graph = Some g
                  \<and> ((\<exists>e. safe_dump E g = Inl e)
                     \<or> (\<exists>dumped e. safe_dump E g = Inr dumped
                           \<and> prep_yaml E ((files w)(tmp \<mapsto> dumped)) tmp = Inl e)))"
    if "files w tmp = None"
    using that by (auto simp: after split: option.splits sum.splits)
  then have left: "files w tmp = None \<longrightarrow>
            (files (snd (convertGraph E graph w)) tmp \<noteq> None \<longleftrightarrow>
               (\<exists>g. cisgraph E graph = Some g
                  \<and> ((\<exists>e. safe_dump E g = Inl e)
                     \<or> (\<exists>dumped e. safe_dump E g = Inr dumped
                           \<and> prep_yaml E ((files w)(tmp \<mapsto> dumped)) tmp = Inl e))))
          \<and> (files (snd (executeGraph E usr graph w)) tmp \<noteq> None \<longleftrightarrow>
               (\<exists>g. cisgraph E graph = Some g
                  \<and> ((\<exists>e. safe_dump E g = Inl e)
                     \<or> (\<exists>dumped e. safe_dump E g = Inr dumped
                           \<and> prep_yaml E ((files w)(tmp \<mapsto> dumped)) tmp = Inl e))))"
    unfolding same by simp
  from after same rejected accepted normalizing left show ?thesis
    by - (intro conjI, assumption+)
qed


theorem tmpfile_removed_before_validation_witness:
  "yml_norm demoE (JDict [''content'' \<mapsto> JStr []]) world0 = Some (JStr '' +defaults'')
   \<and> schema_validate demoE (JStr '' +defaults'') = Some ''empty graph''
   \<and> files (snd (convertGraph demoE (JDict [''content'' \<mapsto> JStr []]) world0))
       = (files world0)(''/tmp/cis0yml'' := None)
   \<and> files (snd (executeGraph demoE alice (JDict [''content'' \<mapsto> JStr []]) world0))
       = (files world0)(''/tmp/cis0yml'' := None)
   \<and> files world0 ''/tmp/cis0yml'' = None
   \<and> cisgraph demoE (JDict [''content'' \<mapsto> JStr ''{'']) = Some (JStr ''{'')
   \<and> safe_dump demoE (JStr ''{'') = Inr ''{''
   \<and> prep_yaml demoE ((files world0)(''/tmp/cis0yml'' \<mapsto> ''{'')) ''/tmp/cis0yml'' = Inl ''parse error''
   \<and> files (snd (convertGraph demoE (JDict [''content'' \<mapsto> JStr ''{'']) world0)) ''/tmp/cis0yml''
       \<noteq> None
   \<and> files (snd (executeGraph demoE alice (JDict [''content'' \<mapsto> JStr ''{'']) world0))
        ''/tmp/cis0yml'' \<noteq> None"
proof -
  have tmp: "''/tmp/cis0yml'' = mkstemp demoE (files world0)"
    by (simp add: demoE_def)
  have fresh: "files world0 ''/tmp/cis0yml'' = None"
    by (simp add: world0_def)
  have rejected:
    "yml_norm demoE (JDict [''content'' \<mapsto> JStr []]) world0 = Some (JStr '' +defaults'')"
    "schema_validate demoE (JStr '' +defaults'') = Some ''empty graph''"
    by (simp_all add: demo_defs)
  have brace: "cisgraph demoE (JDict [''content'' \<mapsto> JStr ''{'']) = Some (JStr ''{'')"
    by (simp add: cisgraph_def demoE_def)
  have unparsed: "safe_dump demoE (JStr ''{'') = Inr ''{''"
    "prep_yaml demoE ((files world0)(''/tmp/cis0yml'' \<mapsto> ''{'')) ''/tmp/cis0yml'' = Inl ''parse error''"
    by (simp_all add: demoE_def)
  from tmpfile_removed_before_validation [where E = demoE
      and graph = "JDict [''content'' \<mapsto> JStr []]" and tmp = "''/tmp/cis0yml''" and w = world0
      and usr = alice, OF tmp]
  have "\<forall>n e. yml_norm demoE (JDict [''content'' \<mapsto> JStr []]) world0 = Some n
            \<and> schema_validate demoE n = Some e \<longrightarrow>
          files (snd (convertGraph demoE (JDict [''content'' \<mapsto> JStr []]) world0))
            = (files world0)(''/tmp/cis0yml'' := None)
        \<and> files (snd (executeGraph demoE alice (JDict [''content'' \<mapsto> JStr []]) world0))
            = (files world0)(''/tmp/cis0yml'' := None)"
    by (elim conjE)
  from this [rule_format, of "JStr '' +defaults''" "''empty graph''"] rejected
  have removed: "files (snd (convertGraph demoE (JDict [''content'' \<mapsto> JStr []]) world0))
       = (files world0)(''/tmp/cis0yml'' := None)
     \<and> files (snd (executeGraph demoE alice (JDict [''content'' \<mapsto> JStr []]) world0))
       = (files world0)(''/tmp/cis0yml'' := None)"
    by simp
  from tmpfile_removed_before_validation [where E = demoE
      and graph = "JDict [''content'' \<mapsto> JStr ''{'']" and tmp = "''/tmp/cis0yml''" and w = world0
      and usr = alice, OF tmp]
  have "files world0 ''/tmp/cis0yml'' = None \<longrightarrow>
      (files (snd (convertGraph demoE (JDict [''content'' \<mapsto> JStr ''{'']) world0)) ''/tmp/cis0yml''
         \<noteq> None \<longleftrightarrow>
       (\<exists>g. cisgraph demoE (JDict [''content'' \<mapsto> JStr ''{'']) = Some g
          \<and> ((\<exists>e. safe_dump demoE g = Inl e)
             \<or> (\<exists>dumped e. safe_dump demoE g = Inr dumped
                   \<and> prep_yaml demoE ((files world0)(''/tmp/cis0yml'' \<mapsto> dumped)) ''/tmp/cis0yml''
                       = Inl e))))
    \<and> (files (snd (executeGraph demoE alice (JDict [''content'' \<mapsto> JStr ''{'']) world0))
          ''/tmp/cis0yml'' \<noteq> None \<longleftrightarrow>
       (\<exists>g. cisgraph demoE (JDict [''content'' \<mapsto> JStr ''{'']) = Some g
          \<and> ((\<exists>e. safe_dump demoE g = Inl e)
             \<or> (\<exists>dumped e. safe_dump demoE g = Inr dumped
                   \<and> prep_yaml demoE ((files world0)(''/tmp/cis0yml'' \<mapsto> dumped)) ''/tmp/cis0yml''
                       = Inl e))))"
    by (elim conjE)
  with fresh brace unparsed
  have orphaned:
    "files (snd (convertGraph demoE (JDict [''content'' \<mapsto> JStr ''{'']) world0)) ''/tmp/cis0yml''
       \<noteq> None
     \<and> files (snd (executeGraph demoE alice (JDict [''content'' \<mapsto> JStr ''{'']) world0))
        ''/tmp/cis0yml'' \<noteq> None"
    by simp
  from rejected removed fresh brace unparsed orphaned show ?thesis
    by simp
qed

subsection \<open>executeGraph validates as convertGraph does\<close>

text \<open>
  C5. executeGraph is convertGraph followed by the dispatch: it ends as convertGraph
  ends whenever convertGraph fails, in the same world, and otherwise calls
  \<^verbatim>\<open>execGraph\<close> once, with the text convertGraph returns and the user's login. For
  every input that the validator rejects, both handlers end with the same 400
  RestException and the list of \<^verbatim>\<open>execGraph\<close> calls is as it was; the same holds
  for any other failure of the shared steps.
\<close>

theorem executeGraph_runs_convertGraph:
  "executeGraph E usr graph w =
     (case convertGraph E graph w of
        (Inl e, w') \<Rightarrow> (Inl e, w')
      | (Inr yaml_graph, w') \<Rightarrow>
          (let w'' = w'\<lparr>execCalls := execCalls w' @ [(yaml_graph, login usr)]\<rparr>
           in case execGraph E yaml_graph (login usr) of
                Inl e \<Rightarrow> (Inl (Uncaught e), w'')
              | Inr r \<Rightarrow> (Inr r, w'')))
   \<and> (\<forall>n e. yml_norm E graph w = Some n \<and> schema_validate E n = Some e \<longrightarrow>
          fst (convertGraph E graph w) = Inl (RestException ''Invalid graph %s'' 400 (Some e))
        \<and> fst (executeGraph E usr graph w) = Inl (RestException ''Invalid graph %s'' 400 (Some e))
        \<and> execCalls (snd (executeGraph E usr graph w)) = execCalls w)
   \<and> (\<forall>e. fst (convertGraph E graph w) = Inl e \<longrightarrow>
          fst (executeGraph E usr graph w) = Inl e
        \<and> execCalls (snd (executeGraph E usr graph w)) = execCalls w)"
proof (intro conjI allI impI)
  show "executeGraph E usr graph w =
     (case convertGraph E graph w of
        (Inl e, w') \<Rightarrow> (Inl e, w')
      | (Inr yaml_graph, w') \<Rightarrow>
          (let w'' = w'\<lparr>execCalls := execCalls w' @ [(yaml_graph, login usr)]\<rparr>
           in case execGraph E yaml_graph (login usr) of
                Inl e \<Rightarrow> (Inl (Uncaught e), w'')
              | Inr r \<Rightarrow> (Inr r, w'')))"
    by (rule executeGraph_convertGraph)
next
  fix n e
  assume "yml_norm E graph w = Some n \<and> schema_validate E n = Some e"
  then have n: "yml_norm E graph w = Some n" and e: "schema_validate E n = Some e"
    by simp_all
  from convertGraph_validated [OF n] executeGraph_validated [OF n, of usr] e
  show "fst (convertGraph E graph w) = Inl (RestException ''Invalid graph %s'' 400 (Some e))"
    and "fst (executeGraph E usr graph w) = Inl (RestException ''Invalid graph %s'' 400 (Some e))"
    and "execCalls (snd (executeGraph E usr graph w)) = execCalls w"
    by auto
next
  fix e
  assume e: "fst (convertGraph E graph w) = Inl e"
  have unchanged: "execCalls (snd (convertGraph E graph w)) = execCalls w"
    by (cases graph)
      (simp_all add: convertGraph_def os_remove_def Let_def split: option.splits sum.splits)
  from executeGraph_failed [OF e] show "fst (executeGraph E usr graph w) = Inl e"
    by simp
  from executeGraph_failed [OF e] unchanged
  show "execCalls (snd (executeGraph E usr graph w)) = execCalls w"
    by simp
qed

theorem executeGraph_runs_convertGraph_witness:
  "yml_norm demoE (JDict [''content'' \<mapsto> JStr []]) world0 = Some (JStr '' +defaults'')
   \<and> schema_validate demoE (JStr '' +defaults'') = Some ''empty graph''
   \<and> fst (convertGraph demoE (JDict [''content'' \<mapsto> JStr []]) world0)
       = Inl (RestException ''Invalid graph %s'' 400 (Some ''empty graph''))
   \<and> fst (executeGraph demoE alice (JDict [''content'' \<mapsto> JStr []]) world0)
       = Inl (RestException ''Invalid graph %s'' 400 (Some ''empty graph''))
   \<and> execCalls (snd (executeGraph demoE alice (JDict [''content'' \<mapsto> JStr []]) world0)) = []"
proof -
  have rejected:
    "yml_norm demoE (JDict [''content'' \<mapsto> JStr []]) world0 = Some (JStr '' +defaults'')"
    "schema_validate demoE (JStr '' +defaults'') = Some ''empty graph''"
    by (simp_all add: demo_defs)
  have none: "execCalls world0 = []"
    by (simp add: world0_def)
  from executeGraph_runs_convertGraph [of demoE alice "JDict [''content'' \<mapsto> JStr []]" world0]
  have "\<forall>n e. yml_norm demoE (JDict [''content'' \<mapsto> JStr []]) world0 = Some n
            \<and> schema_validate demoE n = Some e \<longrightarrow>
          fst (convertGraph demoE (JDict [''content'' \<mapsto> JStr []]) world0)
            = Inl (RestException ''Invalid graph %s'' 400 (Some e))
        \<and> fst (executeGraph demoE alice (JDict [''content'' \<mapsto> JStr []]) world0)
            = Inl (RestException ''Invalid graph %s'' 400 (Some e))
        \<and> execCalls (snd (executeGraph demoE alice (JDict [''content'' \<mapsto> JStr []]) world0))
            = execCalls world0"
    by (elim conjE)
  from this [rule_format, of "JStr '' +defaults''" "''empty graph''"] rejected none
  show ?thesis by simp
qed

subsection \<open>The validation error\<close>



subsection \<open>getGraph and read access\<close>

text \<open>
  The route of getGraph answers from the store alone: an identifier that does not
  resolve gives the invalid-id RestException, and otherwise the record is returned,
  whatever the access decision says.
\<close>

lemma getGraph_route_eq:
  "getGraph_route hasAccess filtermodel usr i w =
     (case store w (JStr i) of
        None \<Rightarrow> Inl (RestException (''Invalid graph id ('' @ i @ '').'') 400 None)
      | Some d \<Rightarrow> Inr (filtermodel d usr))"
  by (simp add: getGraph_route_def modelParam_def getGraph_def split: option.splits)

text \<open>
  C2. The graph \<open>graph1\<close> is not public and the anonymous requester has no read access
  to it; a load with \<^verbatim>\<open>level=AccessType.READ\<close> ends with the access exception, yet
  the route of getGraph, which loads with \<^verbatim>\<open>force=True\<close>, returns the record.
\<close>

theorem getGraph_skips_read_access:
  "store world1 (JStr ''g1'') = Some graph1
   \<and> graph1 ''public'' = Some (JBool False)
   \<and> \<not> demoAccess graph1 None READ
   \<and> modelParam demoAccess (Level READ) None ''g1'' world1 = Inl (AccessException ''Access denied'')
   \<and> getGraph_route demoAccess (\<lambda>d u. d) None ''g1'' world1 = Inr graph1"
  by (simp add: getGraph_route_def modelParam_def getGraph_def demoAccess_def world1_def
        world0_def graph1_def)

end
